theory Spec2Isabelle
  imports Complex_Main "HOL-Library.Word"
begin

section \<open>Energy model of catv1.py\<close>

text \<open>
  Python floats are read as real numbers: every float literal of the source stands for
  the decimal it is written as, and \<open>+\<close>, \<open>-\<close>, \<open>*\<close>, \<open>/\<close> and \<open>**\<close> are the exact
  operations. Integers that come from integer widgets (age, body condition score, the
  wet-food percentage) are \<open>int\<close>.

  The source has no exception classes: it reports a failure with a user-facing message
  and returns nothing. The four messages are labelled here:
  \<^item> \<open>InvalidInput\<close>: the message of \<open>calculate_rer\<close> for a weight that is not positive,
    and the message of the first tab for a total age that is not positive;
  \<^item> \<open>PreconditionError\<close>: the messages of the second and third tab when the session
    holds no daily energy requirement;
  \<^item> \<open>FoodCaloriesMissing\<close>: the message of the third tab when both caloric densities
    are zero;
  \<^item> \<open>AssetMissing\<close>: the message of the fourth tab when the font file does not exist,
    and the \<open>except IOError: return None\<close> branch of the renderer.
\<close>

datatype error = InvalidInput | PreconditionError | FoodCaloriesMissing | AssetMissing

text \<open>
  \<open>calculate_rer\<close>: for a weight that is not positive the source shows the error
  message and returns \<open>None\<close>; otherwise \<open>70 * (float(weight_kg) ** 0.75)\<close>.
\<close>

definition calculate_rer :: "real \<Rightarrow> error + real" where
  "calculate_rer weight_kg =
     (if weight_kg \<le> 0 then Inl InvalidInput
      else Inr (70 * (weight_kg powr 0.75)))"

text \<open>
  \<open>get_activity_multiplier\<close>, branch by branch as in the source. The variable
  \<open>multiplier\<close> starts at 1.0 and is overwritten in every branch of the age chain.
\<close>

definition get_activity_multiplier :: "int \<Rightarrow> bool \<Rightarrow> int \<Rightarrow> bool \<Rightarrow> bool \<Rightarrow> real" where
  "get_activity_multiplier age_months is_neutered bcs is_pregnant is_lactating =
     (if is_pregnant then 2.0
      else if is_lactating then 3.0
      else if age_months < 4 then 3.0
      else if age_months \<ge> 4 \<and> age_months \<le> 12 then 2.0
      else if age_months > 12 \<and> age_months < 84 then
        (if is_neutered then
           (if bcs > 5 then 0.8 else if bcs < 4 then 1.6 else 1.2)
         else
           (if bcs > 5 then 1.0 else if bcs < 4 then 1.8 else 1.4))
      else
        (if bcs > 5 then 0.8 else if bcs < 4 then 1.2 else 1.0))"

text \<open>
  The decision table of the specification, written from its words: the adjustment for
  the body condition score, the seven rows, and their precedence.
\<close>

definition bcs_adjusted :: "real \<Rightarrow> real \<Rightarrow> real \<Rightarrow> int \<Rightarrow> real" where
  "bcs_adjusted base overweight underweight bcs =
     (if bcs > 5 then overweight else if bcs < 4 then underweight else base)"

definition activityMultiplier_table :: "int \<Rightarrow> bool \<Rightarrow> int \<Rightarrow> bool \<Rightarrow> bool \<Rightarrow> real" where
  "activityMultiplier_table ageMonths neutered bcs pregnant lactating =
     (if pregnant then 2.0
      else if lactating then 3.0
      else if ageMonths < 4 then 3.0
      else if 4 \<le> ageMonths \<and> ageMonths \<le> 12 then 2.0
      else if 13 \<le> ageMonths \<and> ageMonths \<le> 83 then
        (if neutered then bcs_adjusted 1.2 0.8 1.6 bcs
         else bcs_adjusted 1.4 1.0 1.8 bcs)
      else bcs_adjusted 1.0 0.8 1.2 bcs)"

section \<open>Session state and the four tabs of main\<close>

text \<open>
  The values read from the widgets in one run of the script. The three buttons are the
  values returned by \<open>st.button\<close> for the keys \<open>calc_der\<close>, \<open>analyze_intake\<close> and
  \<open>generate_plan\<close>.
\<close>

record widgets =
  weight :: real
  age_years :: int
  age_months_part :: int
  is_neutered :: bool
  bcs :: int
  is_pregnant :: bool
  is_lactating :: bool
  calc_der :: bool
  dry_food_grams :: real
  dry_food_kcal_per_1000g :: real
  wet_food_grams :: real
  wet_food_kcal_per_100g :: real
  analyze_intake :: bool
  wet_food_percentage :: int
  generate_plan :: bool

text \<open>
  The dictionaries stored in the session, one record per dictionary and one field per
  key. \<open>ci_is_neutered\<close> holds the truth value behind the yes/no label that the source
  stores.
\<close>

record cat_info =
  ci_weight :: real
  ci_age_years :: int
  ci_age_months :: int
  ci_is_neutered :: bool
  ci_bcs :: int

record der_info =
  di_rer :: real
  di_multiplier :: real
  di_der :: real
  di_water_intake :: real

record intake_analysis =
  ia_dry_food_grams :: real
  ia_dry_food_kcal :: real
  ia_wet_food_grams :: real
  ia_wet_food_kcal :: real
  ia_total_intake :: real
  ia_calorie_difference :: real

record feeding_plan =
  fp_wet_food_percentage :: int
  fp_required_dry_grams :: real
  fp_required_wet_grams :: real

text \<open>
  \<open>st.session_state\<close>, restricted to the keys that the script assigns itself. A field is
  \<open>None\<close> when the key is absent. The key \<open>der\<close> may also be present and hold Python's
  \<open>None\<close>, which the source tests for: that is \<open>Some None\<close>.
\<close>

record session_state =
  der :: "real option option"
  cat_info :: "cat_info option"
  der_info :: "der_info option"
  intake_analysis :: "intake_analysis option"
  feeding_plan :: "feeding_plan option"

datatype classification = OverTarget | UnderTarget | OnTarget

datatype severity = SevError | SevWarning | SevInfo

text \<open>
  What a run shows, as far as the results are concerned: the messages, the three
  result panels, the verdict of the comparison and the download button with its data.
  Captions, metrics of the overview and separators are left out.
\<close>

datatype ui_output =
    Message severity error
  | ShownDer real real real
  | ShownIntake real real real
  | Verdict classification
  | ShownPlan real real
  | DownloadButton "8 word list"

datatype flow = Continue | Stop

text \<open>
  The font file as the script sees it: whether \<open>os.path.exists\<close> finds it, whether
  \<open>ImageFont.truetype\<close> loads it, and the bytes that the drawing calls followed by
  \<open>image.save(buf, format='PNG')\<close> produce from the four arguments of the renderer.
  The imaging library is not part of the repository, so its result is a parameter.
\<close>

record environment =
  font_exists :: bool
  truetype_loads :: bool
  render_png :: "cat_info option \<times> der_info \<times> intake_analysis option \<times> feeding_plan option
                   \<Rightarrow> 8 word list"

text \<open>
  \<open>generate_diet_report_image\<close>: the \<open>try\<close> block loads the font four times; an
  \<open>IOError\<close> makes the function return \<open>None\<close> before anything is drawn.
\<close>

definition generate_diet_report_image ::
  "environment \<Rightarrow> cat_info option \<Rightarrow> der_info \<Rightarrow> intake_analysis option
     \<Rightarrow> feeding_plan option \<Rightarrow> error + 8 word list" where
  "generate_diet_report_image env ci di ia fp =
     (if truetype_loads env then Inr (render_png env (ci, di, ia, fp))
      else Inl AssetMissing)"

text \<open>The test of the second and third tab: the key is absent or holds \<open>None\<close>.\<close>

definition der_missing :: "session_state \<Rightarrow> bool" where
  "der_missing st = (der st = None \<or> der st = Some None)"

text \<open>The comparison at the end of the second tab, with its band of 5 kcal.\<close>

definition classify :: "real \<Rightarrow> classification" where
  "classify calorie_difference =
     (if calorie_difference > 5 then OverTarget
      else if calorie_difference < -5 then UnderTarget
      else OnTarget)"

text \<open>First tab: the handler of the button \<open>calc_der\<close>.\<close>

definition tab1 :: "widgets \<Rightarrow> session_state \<Rightarrow> ui_output list \<times> session_state" where
  "tab1 w st =
     (if calc_der w then
        (let age = age_years w * 12 + age_months_part w in
         if age \<le> 0 then ([Message SevError InvalidInput], st)
         else
           (case calculate_rer (weight w) of
              Inl e \<Rightarrow> ([Message SevError e], st)
            | Inr rer \<Rightarrow>
                (let multiplier = get_activity_multiplier age (is_neutered w) (bcs w)
                                    (is_pregnant w) (is_lactating w);
                     der_value = rer * multiplier
                 in ([ShownDer rer multiplier der_value],
                     st\<lparr>der := Some (Some der_value),
                        cat_info := Some \<lparr>ci_weight = weight w, ci_age_years = age_years w,
                                          ci_age_months = age_months_part w,
                                          ci_is_neutered = is_neutered w, ci_bcs = bcs w\<rparr>,
                        der_info := Some \<lparr>di_rer = rer, di_multiplier = multiplier,
                                          di_der = der_value, di_water_intake = der_value\<rparr>,
                        intake_analysis := None,
                        feeding_plan := None\<rparr>))))
      else ([], st))"

text \<open>
  Second tab: the handler of the button \<open>analyze_intake\<close>. Without a stored
  requirement it shows the error and calls \<open>st.stop()\<close>, which ends the run.
\<close>

definition tab2 :: "widgets \<Rightarrow> session_state \<Rightarrow> ui_output list \<times> flow \<times> session_state" where
  "tab2 w st =
     (if analyze_intake w then
        (case der st of
           Some (Some der_value) \<Rightarrow>
             (let dry_food_calories = (dry_food_grams w / 1000) * dry_food_kcal_per_1000g w;
                  wet_food_calories = (wet_food_grams w / 100) * wet_food_kcal_per_100g w;
                  total_intake = dry_food_calories + wet_food_calories;
                  calorie_difference = total_intake - der_value
              in ([ShownIntake dry_food_calories wet_food_calories total_intake,
                   Verdict (classify calorie_difference)],
                  Continue,
                  st\<lparr>intake_analysis :=
                       Some \<lparr>ia_dry_food_grams = dry_food_grams w,
                             ia_dry_food_kcal = dry_food_calories,
                             ia_wet_food_grams = wet_food_grams w,
                             ia_wet_food_kcal = wet_food_calories,
                             ia_total_intake = total_intake,
                             ia_calorie_difference = calorie_difference\<rparr>\<rparr>))
         | _ \<Rightarrow> ([Message SevError PreconditionError], Stop, st))
      else ([], Continue, st))"

text \<open>
  Third tab. The slider and the button \<open>generate_plan\<close> exist only in the last branch:
  with no stored requirement, or with both caloric densities zero, the tab shows a
  warning and nothing else.
\<close>

definition tab3 :: "widgets \<Rightarrow> session_state \<Rightarrow> ui_output list \<times> session_state" where
  "tab3 w st =
     (case der st of
        Some (Some der_value) \<Rightarrow>
          (if dry_food_kcal_per_1000g w = 0 \<and> wet_food_kcal_per_100g w = 0
           then ([Message SevWarning FoodCaloriesMissing], st)
           else if generate_plan w then
             (let target_wet_calories = der_value * (real_of_int (wet_food_percentage w) / 100);
                  target_dry_calories =
                    der_value * (real_of_int (100 - wet_food_percentage w) / 100);
                  required_dry_grams =
                    (if dry_food_kcal_per_1000g w > 0
                     then (target_dry_calories / dry_food_kcal_per_1000g w) * 1000 else 0);
                  required_wet_grams =
                    (if wet_food_kcal_per_100g w > 0
                     then (target_wet_calories / wet_food_kcal_per_100g w) * 100 else 0)
              in ([ShownPlan required_dry_grams required_wet_grams],
                  st\<lparr>feeding_plan :=
                       Some \<lparr>fp_wet_food_percentage = wet_food_percentage w,
                             fp_required_dry_grams = required_dry_grams,
                             fp_required_wet_grams = required_wet_grams\<rparr>\<rparr>))
           else ([], st))
      | _ \<Rightarrow> ([Message SevWarning PreconditionError], st))"

text \<open>
  Fourth tab, which only reads the session. The download section tests the existence
  of the font file before it calls the renderer, and offers the button only for a
  result that is neither \<open>None\<close> nor empty.
\<close>

definition tab4 :: "environment \<Rightarrow> session_state \<Rightarrow> ui_output list" where
  "tab4 env st =
     (case der_info st of
        None \<Rightarrow> [Message SevInfo PreconditionError]
      | Some di \<Rightarrow>
          (if \<not> font_exists env then [Message SevError AssetMissing]
           else
             (case generate_diet_report_image env (cat_info st) di
                     (intake_analysis st) (feeding_plan st) of
                Inr image_bytes \<Rightarrow>
                  (if image_bytes \<noteq> [] then [DownloadButton image_bytes] else [])
              | Inl e \<Rightarrow> [])))"

text \<open>
  One run of \<open>main\<close>: the four tabs in the order of the script, the session threaded
  through them. After \<open>st.stop()\<close> the third and the fourth tab are not reached.
\<close>

definition main :: "environment \<Rightarrow> widgets \<Rightarrow> session_state \<Rightarrow> ui_output list \<times> session_state" where
  "main env w st =
     (let (out1, st1) = tab1 w st;
          (out2, fl, st2) = tab2 w st1
      in case fl of
           Stop \<Rightarrow> (out1 @ out2, st2)
         | Continue \<Rightarrow>
             (let (out3, st3) = tab3 w st2
              in (out1 @ out2 @ out3 @ tab4 env st3, st3)))"

text \<open>
  The intake that a feeding plan amounts to when it is fed for one day: the grams of
  the plan entered in the second tab, with the same caloric densities.
\<close>

definition plan_as_intake :: "widgets \<Rightarrow> feeding_plan \<Rightarrow> widgets" where
  "plan_as_intake w p =
     w\<lparr>dry_food_grams := fp_required_dry_grams p,
       wet_food_grams := fp_required_wet_grams p,
       analyze_intake := True, calc_der := False, generate_plan := False\<rparr>"

text \<open>The verdicts among the things a run shows, in order.\<close>

definition verdicts :: "ui_output list \<Rightarrow> classification list" where
  "verdicts outs = concat (map (\<lambda>x. case x of Verdict v \<Rightarrow> [v] | _ \<Rightarrow> []) outs)"

section \<open>Concrete sessions\<close>

text \<open>
  The values the widgets have before the user touches them: weight 4.0, two years and
  zero months, the first radio option (neutered), score 5, both check boxes off, the
  four food inputs at their minimum 0.0, the slider of the third tab at 50, and no
  button pressed.
\<close>

definition default_widgets :: widgets where
  "default_widgets =
     \<lparr>weight = 4.0, age_years = 2, age_months_part = 0, is_neutered = True, bcs = 5,
      is_pregnant = False, is_lactating = False, calc_der = False,
      dry_food_grams = 0, dry_food_kcal_per_1000g = 0,
      wet_food_grams = 0, wet_food_kcal_per_100g = 0, analyze_intake = False,
      wet_food_percentage = 50, generate_plan = False\<rparr>"

text \<open>The session before anything is stored, and a session that holds only \<open>der\<close>.\<close>

definition empty_session :: session_state where
  "empty_session = \<lparr>der = None, cat_info = None, der_info = None,
                     intake_analysis = None, feeding_plan = None\<rparr>"

definition session_with_der :: "real \<Rightarrow> session_state" where
  "session_with_der d = empty_session\<lparr>der := Some (Some d)\<rparr>"

text \<open>
  The intake example of the specification: 50 g of dry food at 3500 kcal per 1000 g and
  100 g of wet food at 90 kcal per 100 g, with the button of the second tab pressed.
\<close>

definition intake_example :: widgets where
  "intake_example =
     default_widgets\<lparr>dry_food_grams := 50, dry_food_kcal_per_1000g := 3500,
                     wet_food_grams := 100, wet_food_kcal_per_100g := 90,
                     analyze_intake := True\<rparr>"

text \<open>
  Three requests for a plan with an even split: the example of the specification (4000
  kcal per 1000 g dry, 100 kcal per 100 g wet), the same with no density given for the
  dry food, and the untouched food inputs, where both densities are zero.
\<close>

definition plan_example :: widgets where
  "plan_example =
     default_widgets\<lparr>dry_food_kcal_per_1000g := 4000, wet_food_kcal_per_100g := 100,
                     wet_food_percentage := 50, generate_plan := True\<rparr>"

definition plan_dry_zero :: widgets where
  "plan_dry_zero = default_widgets\<lparr>wet_food_kcal_per_100g := 100, generate_plan := True\<rparr>"

definition plan_both_zero :: widgets where
  "plan_both_zero = default_widgets\<lparr>generate_plan := True\<rparr>"

text \<open>
  A cat of about 1.6 kg, for which the resting requirement is exactly 100 kcal, with the
  button of the first tab pressed.
\<close>

definition der_example :: widgets where
  "der_example = default_widgets\<lparr>weight := (10/7) powr (4/3), calc_der := True\<rparr>"

text \<open>
  A session that holds the results of all three steps for a requirement of 250 kcal.
\<close>

definition stale_session :: session_state where
  "stale_session =
     \<lparr>der = Some (Some 250),
      cat_info = Some \<lparr>ci_weight = 5, ci_age_years = 3, ci_age_months = 0,
                        ci_is_neutered = True, ci_bcs = 5\<rparr>,
      der_info = Some \<lparr>di_rer = 625 / 3, di_multiplier = 1.2, di_der = 250,
                        di_water_intake = 250\<rparr>,
      intake_analysis = Some \<lparr>ia_dry_food_grams = 50, ia_dry_food_kcal = 175,
                               ia_wet_food_grams = 100, ia_wet_food_kcal = 90,
                               ia_total_intake = 265, ia_calorie_difference = 15\<rparr>,
      feeding_plan = Some \<lparr>fp_wet_food_percentage = 50, fp_required_dry_grams = 125 / 4,
                            fp_required_wet_grams = 125\<rparr>\<rparr>"

text \<open>
  Two states of the font file: present and loadable, and absent. The bytes stand for
  what the imaging library writes; only their first eight are given.
\<close>

definition png_signature :: "8 word list" where
  "png_signature = [0x89, 0x50, 0x4E, 0x47, 0x0D, 0x0A, 0x1A, 0x0A]"

definition font_present :: environment where
  "font_present = \<lparr>font_exists = True, truetype_loads = True,
                     render_png = (\<lambda>_. png_signature)\<rparr>"

definition font_absent :: environment where
  "font_absent = \<lparr>font_exists = False, truetype_loads = False,
                    render_png = (\<lambda>_. png_signature)\<rparr>"


section \<open>Auxiliary facts\<close>

lemma powr_16_three_quarters: "(16::real) powr 0.75 = 8"
proof -
  have "(16::real) = 2 powr 4" by simp
  then have "(16::real) powr 0.75 = (2 powr 4) powr 0.75" by simp
  also have "\<dots> = (2::real) powr 3" by (simp only: powr_powr) simp
  also have "\<dots> = 8" by simp
  finally show ?thesis .
qed

lemma powr_rer_100: "70 * (((10/7)::real) powr (4/3)) powr 0.75 = 100"
proof -
  have "(((10/7)::real) powr (4/3)) powr 0.75 = (10/7) powr ((4/3) * 0.75)"
    by (simp only: powr_powr)
  also have "\<dots> = (10/7) powr 1" by simp
  also have "\<dots> = 10/7" by simp
  finally show ?thesis by simp
qed

lemma tab2_stores:
  assumes "analyze_intake w" and "der st = Some (Some d)"
  shows "\<exists>ia. intake_analysis (snd (snd (tab2 w st))) = Some ia
           \<and> ia_dry_food_kcal ia = (dry_food_grams w / 1000) * dry_food_kcal_per_1000g w
           \<and> ia_wet_food_kcal ia = (wet_food_grams w / 100) * wet_food_kcal_per_100g w
           \<and> ia_total_intake ia = ia_dry_food_kcal ia + ia_wet_food_kcal ia
           \<and> ia_calorie_difference ia = ia_total_intake ia - d
           \<and> verdicts (fst (tab2 w st)) = [classify (ia_calorie_difference ia)]"
  using assms by (simp add: tab2_def Let_def verdicts_def)

lemma tab3_stores:
  assumes "der st = Some (Some d)" and "generate_plan w"
    and "\<not> (dry_food_kcal_per_1000g w = 0 \<and> wet_food_kcal_per_100g w = 0)"
  shows "\<exists>p. tab3 w st = ([ShownPlan (fp_required_dry_grams p) (fp_required_wet_grams p)],
                         st\<lparr>feeding_plan := Some p\<rparr>)
           \<and> fp_wet_food_percentage p = wet_food_percentage w
           \<and> fp_required_dry_grams p =
                 (if dry_food_kcal_per_1000g w > 0
                  then (d * (real_of_int (100 - wet_food_percentage w) / 100)
                          / dry_food_kcal_per_1000g w) * 1000
                  else 0)
           \<and> fp_required_wet_grams p =
                 (if wet_food_kcal_per_100g w > 0
                  then (d * (real_of_int (wet_food_percentage w) / 100)
                          / wet_food_kcal_per_100g w) * 100
                  else 0)"
proof -
  define rd where "rd =
    (if dry_food_kcal_per_1000g w > 0
     then (d * (real_of_int (100 - wet_food_percentage w) / 100)
             / dry_food_kcal_per_1000g w) * 1000
     else 0)"
  define rw where "rw =
    (if wet_food_kcal_per_100g w > 0
     then (d * (real_of_int (wet_food_percentage w) / 100)
             / wet_food_kcal_per_100g w) * 100
     else 0)"
  define p where "p = \<lparr>fp_wet_food_percentage = wet_food_percentage w,
                        fp_required_dry_grams = rd, fp_required_wet_grams = rw\<rparr>"
  have sel: "fp_wet_food_percentage p = wet_food_percentage w"
    "fp_required_dry_grams p = rd" "fp_required_wet_grams p = rw"
    by (simp_all add: p_def)
  have "tab3 w st = ([ShownPlan rd rw], st\<lparr>feeding_plan := Some p\<rparr>)"
    using assms by (simp add: tab3_def Let_def rd_def rw_def p_def)
  then have "tab3 w st = ([ShownPlan (fp_required_dry_grams p) (fp_required_wet_grams p)],
                          st\<lparr>feeding_plan := Some p\<rparr>)
           \<and> fp_wet_food_percentage p = wet_food_percentage w
           \<and> fp_required_dry_grams p = rd \<and> fp_required_wet_grams p = rw"
    by (simp add: sel)
  then show ?thesis unfolding rd_def rw_def by (rule exI [of _ p])
qed

lemma split_recombines:
  fixes d dk wk :: real
  assumes "0 < dk" and "0 < wk"
  shows "(((d * (real_of_int (100 - pc) / 100) / dk) * 1000) / 1000) * dk
         + (((d * (real_of_int pc / 100) / wk) * 100) / 100) * wk = d"
proof -
  have "(((d * (real_of_int (100 - pc) / 100) / dk) * 1000) / 1000) * dk
          = d * (real_of_int (100 - pc) / 100)"
    using assms(1) by simp
  moreover have "(((d * (real_of_int pc / 100) / wk) * 100) / 100) * wk
          = d * (real_of_int pc / 100)"
    using assms(2) by simp
  moreover have "d * (real_of_int (100 - pc) / 100) + d * (real_of_int pc / 100) = d"
    by (simp add: field_simps)
  ultimately show ?thesis by simp
qed

lemma tab3_keeps_without_button: "\<not> generate_plan w \<Longrightarrow> snd (tab3 w st) = st"
  by (simp add: tab3_def split: option.splits)

lemma main_only_calc_der:
  "\<not> analyze_intake w \<Longrightarrow> \<not> generate_plan w \<Longrightarrow> snd (main env w st) = snd (tab1 w st)"
proof -
  assume a: "\<not> analyze_intake w" and g: "\<not> generate_plan w"
  obtain out1 st1 where t1: "tab1 w st = (out1, st1)" by (cases "tab1 w st")
  obtain out3 st3 where t3: "tab3 w st1 = (out3, st3)" by (cases "tab3 w st1")
  have "st3 = st1" using tab3_keeps_without_button [OF g, of st1] t3 by simp
  with a t1 t3 show ?thesis by (simp add: main_def tab2_def)
qed

section \<open>The claims\<close>

text \<open>
  C1. For every input the activity multiplier of the source equals the decision table
  of the specification evaluated in precedence order: pregnant gives 2.0 whatever the
  other inputs are, lactating without pregnancy gives 3.0, and otherwise the age
  brackets below 4, 4 to 12, 13 to 83 and from 84 give the tabulated values; a body
  condition score of 4 or 5 leaves the base value of the bracket unchanged.
\<close>

theorem get_activity_multiplier_table:
  "get_activity_multiplier age neutered score pregnant lactating
     = activityMultiplier_table age neutered score pregnant lactating
   \<and> get_activity_multiplier age neutered score True lactating = 2.0
   \<and> get_activity_multiplier age neutered score False True = 3.0
   \<and> bcs_adjusted base heavy light 4 = base
   \<and> bcs_adjusted base heavy light 5 = base"
  by (simp add: get_activity_multiplier_def activityMultiplier_table_def bcs_adjusted_def)

text \<open>
  C2. For every positive weight \<open>calculate_rer\<close> returns 70 times the weight raised to
  the real exponent 0.75; for a weight that is zero or negative it fails with
  \<open>InvalidInput\<close> and returns no number.
\<close>

theorem calculate_rer_spec:
  "(0 < weight_kg \<longrightarrow> calculate_rer weight_kg = Inr (70 * weight_kg powr 0.75))
   \<and> (weight_kg \<le> 0 \<longrightarrow> calculate_rer weight_kg = Inl InvalidInput)"
  by (simp add: calculate_rer_def)

theorem calculate_rer_spec_witness:
  "(0::real) < 16 \<and> calculate_rer 16 = Inr 560
   \<and> (-2::real) \<le> 0 \<and> calculate_rer (-2) = Inl InvalidInput"
  using calculate_rer_spec [of 16] calculate_rer_spec [of "-2"]
  by (simp add: powr_16_three_quarters)

text \<open>
  C3. Whenever the second tab computes an intake result, the verdict it shows is
  "over target" exactly when the stored calorie difference is greater than 5, "under
  target" exactly when it is less than -5, and "on target" otherwise; a difference of
  exactly 5 or exactly -5 is on target.
\<close>

theorem intake_classification:
  assumes "analyze_intake w" and "der st = Some (Some d)"
  shows "\<exists>ia v. intake_analysis (snd (snd (tab2 w st))) = Some ia
           \<and> verdicts (fst (tab2 w st)) = [v]
           \<and> (v = OverTarget \<longleftrightarrow> ia_calorie_difference ia > 5)
           \<and> (v = UnderTarget \<longleftrightarrow> ia_calorie_difference ia < -5)
           \<and> (v = OnTarget \<longleftrightarrow> -5 \<le> ia_calorie_difference ia \<and> ia_calorie_difference ia \<le> 5)"
  using assms by (simp add: tab2_def Let_def verdicts_def classify_def)

theorem intake_classification_witness:
  "analyze_intake intake_example \<and> der (session_with_der 260) = Some (Some 260)
   \<and> verdicts (fst (tab2 intake_example (session_with_der 260))) = [OnTarget]
   \<and> verdicts (fst (tab2 intake_example (session_with_der 270))) = [OnTarget]
   \<and> verdicts (fst (tab2 intake_example (session_with_der 250))) = [OverTarget]
   \<and> verdicts (fst (tab2 intake_example (session_with_der 280))) = [UnderTarget]"
proof -
  have a: "analyze_intake intake_example"
    by (simp add: intake_example_def default_widgets_def)
  have d: "der (session_with_der x) = Some (Some x)" for x
    by (simp add: session_with_der_def empty_session_def)
  have ia: "intake_analysis (snd (snd (tab2 intake_example (session_with_der x)))) = Some i
            \<Longrightarrow> ia_calorie_difference i = 265 - x" for x i
    by (auto simp add: tab2_def Let_def intake_example_def default_widgets_def
          session_with_der_def empty_session_def)
  have 1: "verdicts (fst (tab2 intake_example (session_with_der 260))) = [OnTarget]"
    using intake_classification [OF a d, of 260] ia [of 260] by fastforce
  have 2: "verdicts (fst (tab2 intake_example (session_with_der 270))) = [OnTarget]"
    using intake_classification [OF a d, of 270] ia [of 270] by fastforce
  have 3: "verdicts (fst (tab2 intake_example (session_with_der 250))) = [OverTarget]"
    using intake_classification [OF a d, of 250] ia [of 250] by fastforce
  have 4: "verdicts (fst (tab2 intake_example (session_with_der 280))) = [UnderTarget]"
    using intake_classification [OF a d, of 280] ia [of 280] by fastforce
  from a d 1 2 3 4 show ?thesis by simp
qed

text \<open>
  C4, at the input where it fails. With a requirement of 300 kcal stored and both
  caloric densities zero, the third tab shows its warning about missing food calories
  and stores no plan, although a plan is requested: no grams are returned at all.
\<close>

theorem plan_both_zero_counterexample:
  "der (session_with_der 300) = Some (Some 300)
   \<and> generate_plan plan_both_zero
   \<and> wet_food_percentage plan_both_zero = 50
   \<and> dry_food_kcal_per_1000g plan_both_zero = 0
   \<and> wet_food_kcal_per_100g plan_both_zero = 0
   \<and> tab3 plan_both_zero (session_with_der 300)
       = ([Message SevWarning FoodCaloriesMissing], session_with_der 300)
   \<and> feeding_plan (snd (tab3 plan_both_zero (session_with_der 300))) = None"
  by (simp add: tab3_def plan_both_zero_def default_widgets_def session_with_der_def
        empty_session_def)

text \<open>
  C4, as amended. With a requirement stored and a plan requested, if the two caloric
  densities are not both zero, the plan stored has the chosen percentage, the dry grams
  (der * ((100 - percentage) / 100) / dry density) * 1000 when the dry density is
  positive and 0 otherwise, and the wet grams (der * (percentage / 100) / wet density)
  * 100 when the wet density is positive and 0 otherwise, so a single zero density
  gives 0 grams without a division; if both densities are zero, the tab shows a warning
  and leaves the session as it was.
\<close>

theorem plan_formulas:
  assumes "der st = Some (Some d)" and "generate_plan w"
  shows "(\<not> (dry_food_kcal_per_1000g w = 0 \<and> wet_food_kcal_per_100g w = 0) \<longrightarrow>
            (\<exists>p. feeding_plan (snd (tab3 w st)) = Some p
               \<and> fst (tab3 w st)
                   = [ShownPlan (fp_required_dry_grams p) (fp_required_wet_grams p)]
               \<and> fp_wet_food_percentage p = wet_food_percentage w
               \<and> fp_required_dry_grams p =
                     (if dry_food_kcal_per_1000g w > 0
                      then (d * (real_of_int (100 - wet_food_percentage w) / 100)
                              / dry_food_kcal_per_1000g w) * 1000
                      else 0)
               \<and> fp_required_wet_grams p =
                     (if wet_food_kcal_per_100g w > 0
                      then (d * (real_of_int (wet_food_percentage w) / 100)
                              / wet_food_kcal_per_100g w) * 100
                      else 0)))
       \<and> (dry_food_kcal_per_1000g w = 0 \<and> wet_food_kcal_per_100g w = 0 \<longrightarrow>
            tab3 w st = ([Message SevWarning FoodCaloriesMissing], st))"
proof (intro conjI impI)
  assume nz: "\<not> (dry_food_kcal_per_1000g w = 0 \<and> wet_food_kcal_per_100g w = 0)"
  from tab3_stores [OF assms nz] obtain p where
    t3: "tab3 w st = ([ShownPlan (fp_required_dry_grams p) (fp_required_wet_grams p)],
                      st\<lparr>feeding_plan := Some p\<rparr>)"
    and rest: "fp_wet_food_percentage p = wet_food_percentage w"
      "fp_required_dry_grams p =
         (if dry_food_kcal_per_1000g w > 0
          then (d * (real_of_int (100 - wet_food_percentage w) / 100)
                  / dry_food_kcal_per_1000g w) * 1000
          else 0)"
      "fp_required_wet_grams p =
         (if wet_food_kcal_per_100g w > 0
          then (d * (real_of_int (wet_food_percentage w) / 100)
                  / wet_food_kcal_per_100g w) * 100
          else 0)"
    by blast
  have "feeding_plan (snd (tab3 w st)) = Some p"
    and "fst (tab3 w st) = [ShownPlan (fp_required_dry_grams p) (fp_required_wet_grams p)]"
    by (simp_all add: t3)
  with rest show "\<exists>p. feeding_plan (snd (tab3 w st)) = Some p
               \<and> fst (tab3 w st)
                   = [ShownPlan (fp_required_dry_grams p) (fp_required_wet_grams p)]
               \<and> fp_wet_food_percentage p = wet_food_percentage w
               \<and> fp_required_dry_grams p =
                     (if dry_food_kcal_per_1000g w > 0
                      then (d * (real_of_int (100 - wet_food_percentage w) / 100)
                              / dry_food_kcal_per_1000g w) * 1000
                      else 0)
               \<and> fp_required_wet_grams p =
                     (if wet_food_kcal_per_100g w > 0
                      then (d * (real_of_int (wet_food_percentage w) / 100)
                              / wet_food_kcal_per_100g w) * 100
                      else 0)"
    by blast
next
  assume "dry_food_kcal_per_1000g w = 0 \<and> wet_food_kcal_per_100g w = 0"
  with assms(1) show "tab3 w st = ([Message SevWarning FoodCaloriesMissing], st)"
    by (simp add: tab3_def)
qed

theorem plan_formulas_witness:
  "der (session_with_der 300) = Some (Some 300)
   \<and> generate_plan plan_example \<and> generate_plan plan_dry_zero \<and> generate_plan plan_both_zero
   \<and> (\<exists>p. feeding_plan (snd (tab3 plan_example (session_with_der 300))) = Some p
          \<and> fp_wet_food_percentage p = 50
          \<and> fp_required_dry_grams p = 37.5 \<and> fp_required_wet_grams p = 150)
   \<and> (\<exists>p. feeding_plan (snd (tab3 plan_dry_zero (session_with_der 300))) = Some p
          \<and> fp_wet_food_percentage p = 50
          \<and> fp_required_dry_grams p = 0 \<and> fp_required_wet_grams p = 150)
   \<and> tab3 plan_both_zero (session_with_der 300)
       = ([Message SevWarning FoodCaloriesMissing], session_with_der 300)"
proof -
  have d: "der (session_with_der 300) = Some (Some 300)"
    by (simp add: session_with_der_def empty_session_def)
  have e: "generate_plan plan_example" "dry_food_kcal_per_1000g plan_example = 4000"
    "wet_food_kcal_per_100g plan_example = 100" "wet_food_percentage plan_example = 50"
    by (simp_all add: plan_example_def default_widgets_def)
  have z: "generate_plan plan_dry_zero" "dry_food_kcal_per_1000g plan_dry_zero = 0"
    "wet_food_kcal_per_100g plan_dry_zero = 100" "wet_food_percentage plan_dry_zero = 50"
    by (simp_all add: plan_dry_zero_def default_widgets_def)
  have b: "generate_plan plan_both_zero" "dry_food_kcal_per_1000g plan_both_zero = 0"
    "wet_food_kcal_per_100g plan_both_zero = 0"
    by (simp_all add: plan_both_zero_def default_widgets_def)
  from plan_formulas [OF d e(1)]
  have 1: "\<exists>p. feeding_plan (snd (tab3 plan_example (session_with_der 300))) = Some p
          \<and> fp_wet_food_percentage p = 50
          \<and> fp_required_dry_grams p = 37.5 \<and> fp_required_wet_grams p = 150"
    by (simp add: e) blast
  from plan_formulas [OF d z(1)]
  have 2: "\<exists>p. feeding_plan (snd (tab3 plan_dry_zero (session_with_der 300))) = Some p
          \<and> fp_wet_food_percentage p = 50
          \<and> fp_required_dry_grams p = 0 \<and> fp_required_wet_grams p = 150"
    by (simp add: z) blast
  from plan_formulas [OF d b(1)]
  have 3: "tab3 plan_both_zero (session_with_der 300)
       = ([Message SevWarning FoodCaloriesMissing], session_with_der 300)"
    by (simp add: b)
  from d e(1) z(1) b(1) 1 2 3 show ?thesis by simp
qed

text \<open>
  C5. With a requirement \<open>d\<close> stored, the intake result that the second tab stores has
  dry kcal = (dry grams / 1000) * dry kcal per 1000 g, wet kcal = (wet grams / 100) *
  wet kcal per 100 g, total = dry kcal + wet kcal and difference = total - d. For
  d = 250, 50 g at 3500 and 100 g at 90 the total is 265 and the difference 15.
\<close>

theorem intake_formulas:
  assumes "analyze_intake w" and "der st = Some (Some d)"
  shows "\<exists>ia. intake_analysis (snd (snd (tab2 w st))) = Some ia
           \<and> ia_dry_food_kcal ia = (dry_food_grams w / 1000) * dry_food_kcal_per_1000g w
           \<and> ia_wet_food_kcal ia = (wet_food_grams w / 100) * wet_food_kcal_per_100g w
           \<and> ia_total_intake ia = ia_dry_food_kcal ia + ia_wet_food_kcal ia
           \<and> ia_calorie_difference ia = ia_total_intake ia - d"
  using assms by (simp add: tab2_def Let_def)

theorem intake_formulas_witness:
  "analyze_intake intake_example \<and> der (session_with_der 250) = Some (Some 250)
   \<and> (\<exists>ia. intake_analysis (snd (snd (tab2 intake_example (session_with_der 250)))) = Some ia
           \<and> ia_dry_food_kcal ia = 175 \<and> ia_wet_food_kcal ia = 90
           \<and> ia_total_intake ia = 265 \<and> ia_calorie_difference ia = 15)"
proof -
  have a: "analyze_intake intake_example"
    by (simp add: intake_example_def default_widgets_def)
  have d: "der (session_with_der 250) = Some (Some 250)"
    by (simp add: session_with_der_def empty_session_def)
  have v: "dry_food_grams intake_example = 50" "dry_food_kcal_per_1000g intake_example = 3500"
    "wet_food_grams intake_example = 100" "wet_food_kcal_per_100g intake_example = 90"
    by (simp_all add: intake_example_def default_widgets_def)
  from intake_formulas [OF a d] obtain ia where
    "intake_analysis (snd (snd (tab2 intake_example (session_with_der 250)))) = Some ia"
    "ia_dry_food_kcal ia = 175" "ia_wet_food_kcal ia = 90"
    "ia_total_intake ia = ia_dry_food_kcal ia + ia_wet_food_kcal ia"
    "ia_calorie_difference ia = ia_total_intake ia - 250"
    by (auto simp add: v)
  then have "\<exists>ia. intake_analysis (snd (snd (tab2 intake_example (session_with_der 250)))) = Some ia
           \<and> ia_dry_food_kcal ia = 175 \<and> ia_wet_food_kcal ia = 90
           \<and> ia_total_intake ia = 265 \<and> ia_calorie_difference ia = 15"
    by simp
  with a d show ?thesis by simp
qed

text \<open>
  C6. Every successful computation of the first tab stores an energy result whose
  requirement is its resting requirement times its multiplier, and whose water intake
  equals the requirement; the same requirement is stored under the key \<open>der\<close>. A
  resting requirement of 100 with multiplier 1.2 gives 120.
\<close>

theorem der_composition:
  assumes "calc_der w" and "0 < age_years w * 12 + age_months_part w" and "0 < weight w"
  shows "\<exists>ei. der_info (snd (tab1 w st)) = Some ei
           \<and> di_rer ei = 70 * weight w powr 0.75
           \<and> di_multiplier ei =
                 get_activity_multiplier (age_years w * 12 + age_months_part w)
                   (is_neutered w) (bcs w) (is_pregnant w) (is_lactating w)
           \<and> di_der ei = di_rer ei * di_multiplier ei
           \<and> di_water_intake ei = di_der ei
           \<and> der (snd (tab1 w st)) = Some (Some (di_der ei))"
  using assms by (simp add: tab1_def Let_def calculate_rer_def)

theorem der_composition_witness:
  "calc_der der_example
   \<and> 0 < age_years der_example * 12 + age_months_part der_example
   \<and> 0 < weight der_example
   \<and> (\<exists>ei. der_info (snd (tab1 der_example empty_session)) = Some ei
           \<and> di_rer ei = 100 \<and> di_multiplier ei = 1.2 \<and> di_der ei = 120
           \<and> di_water_intake ei = 120
           \<and> der (snd (tab1 der_example empty_session)) = Some (Some 120))"
proof -
  have c: "calc_der der_example"
    and a: "0 < age_years der_example * 12 + age_months_part der_example"
    and w: "0 < weight der_example"
    by (simp_all add: der_example_def default_widgets_def)
  have r: "70 * weight der_example powr 0.75 = 100"
    using powr_rer_100 by (simp add: der_example_def default_widgets_def)
  have m: "get_activity_multiplier (age_years der_example * 12 + age_months_part der_example)
             (is_neutered der_example) (bcs der_example) (is_pregnant der_example)
             (is_lactating der_example) = 1.2"
    by (simp add: der_example_def default_widgets_def get_activity_multiplier_def)
  from der_composition [OF c a w, of empty_session] obtain ei where
    "der_info (snd (tab1 der_example empty_session)) = Some ei"
    "di_rer ei = 100" "di_multiplier ei = 1.2" "di_der ei = di_rer ei * di_multiplier ei"
    "di_water_intake ei = di_der ei"
    "der (snd (tab1 der_example empty_session)) = Some (Some (di_der ei))"
    unfolding r m by blast
  then have "\<exists>ei. der_info (snd (tab1 der_example empty_session)) = Some ei
           \<and> di_rer ei = 100 \<and> di_multiplier ei = 1.2 \<and> di_der ei = 120
           \<and> di_water_intake ei = 120
           \<and> der (snd (tab1 der_example empty_session)) = Some (Some 120)"
    by simp
  with c a w show ?thesis by simp
qed

text \<open>
  C7. In a session with no requirement (the key absent or holding \<open>None\<close>), a request
  for the intake analysis shows the precondition error and stops the run, the third tab
  shows the precondition warning whether or not a plan is requested, and in both cases
  the session is left as it was: no intake result and no plan is computed or stored.
\<close>

theorem precondition_short_circuit:
  assumes "der_missing st"
  shows "(analyze_intake w \<longrightarrow> tab2 w st = ([Message SevError PreconditionError], Stop, st))
       \<and> tab3 w st = ([Message SevWarning PreconditionError], st)
       \<and> (\<not> calc_der w \<and> analyze_intake w \<longrightarrow>
             main env w st = ([Message SevError PreconditionError], st))
       \<and> (\<not> calc_der w \<and> \<not> analyze_intake w \<longrightarrow>
             main env w st = (Message SevWarning PreconditionError # tab4 env st, st))"
  using assms
  by (auto simp add: main_def tab1_def tab2_def tab3_def der_missing_def)

theorem precondition_short_circuit_witness:
  "der_missing empty_session
   \<and> tab2 intake_example empty_session = ([Message SevError PreconditionError], Stop, empty_session)
   \<and> tab3 plan_example empty_session = ([Message SevWarning PreconditionError], empty_session)
   \<and> main font_present intake_example empty_session
        = ([Message SevError PreconditionError], empty_session)
   \<and> main font_present plan_example empty_session
        = ([Message SevWarning PreconditionError, Message SevInfo PreconditionError], empty_session)"
proof -
  have m: "der_missing empty_session"
    by (simp add: der_missing_def empty_session_def)
  have i: "analyze_intake intake_example" "\<not> calc_der intake_example"
    by (simp_all add: intake_example_def default_widgets_def)
  have p: "\<not> analyze_intake plan_example" "\<not> calc_der plan_example"
    by (simp_all add: plan_example_def default_widgets_def)
  have t: "tab4 font_present empty_session = [Message SevInfo PreconditionError]"
    by (simp add: tab4_def empty_session_def)
  from precondition_short_circuit [OF m, of intake_example font_present]
       precondition_short_circuit [OF m, of plan_example font_present]
  show ?thesis using m i p t by simp
qed

text \<open>
  C8. A successful computation of the first tab stores the new requirement and removes
  the stored intake result and feeding plan; a computation that fails, because the
  total age or the weight is not positive, leaves the session as it was. When no other
  button is pressed, the session at the end of the run is the one the first tab left.
\<close>

theorem recomputation_invalidates:
  assumes "calc_der w"
  shows "(0 < age_years w * 12 + age_months_part w \<and> 0 < weight w \<longrightarrow>
            der_info (snd (tab1 w st)) \<noteq> None
          \<and> der (snd (tab1 w st))
              = Some (Some (70 * weight w powr 0.75
                    * get_activity_multiplier (age_years w * 12 + age_months_part w)
                        (is_neutered w) (bcs w) (is_pregnant w) (is_lactating w)))
          \<and> intake_analysis (snd (tab1 w st)) = None
          \<and> feeding_plan (snd (tab1 w st)) = None)
       \<and> (age_years w * 12 + age_months_part w \<le> 0 \<or> weight w \<le> 0 \<longrightarrow>
            snd (tab1 w st) = st)
       \<and> (\<not> analyze_intake w \<and> \<not> generate_plan w \<longrightarrow>
            snd (main env w st) = snd (tab1 w st))"
  using assms
  by (auto simp add: tab1_def Let_def calculate_rer_def main_only_calc_der)

theorem recomputation_invalidates_witness:
  "calc_der der_example
   \<and> intake_analysis stale_session \<noteq> None \<and> feeding_plan stale_session \<noteq> None
   \<and> der (snd (main font_present der_example stale_session)) = Some (Some 120)
   \<and> intake_analysis (snd (main font_present der_example stale_session)) = None
   \<and> feeding_plan (snd (main font_present der_example stale_session)) = None
   \<and> snd (main font_present (der_example\<lparr>age_years := 0\<rparr>) stale_session) = stale_session
   \<and> snd (main font_present (der_example\<lparr>weight := 0\<rparr>) stale_session) = stale_session"
proof -
  have c: "calc_der der_example" "calc_der (der_example\<lparr>age_years := 0\<rparr>)"
    "calc_der (der_example\<lparr>weight := 0\<rparr>)"
    by (simp_all add: der_example_def default_widgets_def)
  have s: "intake_analysis stale_session \<noteq> None" "feeding_plan stale_session \<noteq> None"
    by (simp_all add: stale_session_def)
  have r: "70 * weight der_example powr 0.75 = 100"
    using powr_rer_100 by (simp add: der_example_def default_widgets_def)
  have v: "age_years der_example = 2" "age_months_part der_example = 0"
    "is_neutered der_example" "bcs der_example = 5" "\<not> is_pregnant der_example"
    "\<not> is_lactating der_example" "\<not> analyze_intake der_example"
    "\<not> generate_plan der_example" "0 < weight der_example"
    by (simp_all add: der_example_def default_widgets_def)
  have g: "get_activity_multiplier 24 True 5 False False = 1.2"
    by (simp add: get_activity_multiplier_def)
  from recomputation_invalidates [OF c(1), of stale_session font_present]
  have 1: "der (snd (main font_present der_example stale_session)) = Some (Some 120)
     \<and> intake_analysis (snd (main font_present der_example stale_session)) = None
     \<and> feeding_plan (snd (main font_present der_example stale_session)) = None"
    using r by (simp add: v g)
  from recomputation_invalidates [OF c(2), of stale_session font_present]
  have 2: "snd (main font_present (der_example\<lparr>age_years := 0\<rparr>) stale_session) = stale_session"
    by (simp add: v)
  from recomputation_invalidates [OF c(3), of stale_session font_present]
  have 3: "snd (main font_present (der_example\<lparr>weight := 0\<rparr>) stale_session) = stale_session"
    by (simp add: v)
  from c(1) s 1 2 3 show ?thesis by simp
qed

text \<open>
  C9. When the font cannot be loaded the renderer returns the missing-asset failure and
  no bytes; when it loads, the renderer returns the bytes written by the imaging
  library. The fourth tab tests for the font file first: when the file is absent it
  shows the missing-asset error and no download button, and a download button that is
  shown carries the non-empty bytes the renderer returned.
\<close>

theorem report_asset_gate:
  "(\<not> truetype_loads env \<longrightarrow>
       generate_diet_report_image env ci di ia fp = Inl AssetMissing)
   \<and> (truetype_loads env \<longrightarrow>
       generate_diet_report_image env ci di ia fp = Inr (render_png env (ci, di, ia, fp)))
   \<and> (\<not> font_exists env \<and> der_info st \<noteq> None \<longrightarrow>
       tab4 env st = [Message SevError AssetMissing])
   \<and> (\<not> font_exists env \<longrightarrow> DownloadButton image_bytes \<notin> set (tab4 env st))
   \<and> (DownloadButton image_bytes \<in> set (tab4 env st) \<longrightarrow>
       font_exists env \<and> image_bytes \<noteq> []
       \<and> (\<exists>d. der_info st = Some d
            \<and> generate_diet_report_image env (cat_info st) d (intake_analysis st)
                  (feeding_plan st) = Inr image_bytes))"
  by (auto simp add: generate_diet_report_image_def tab4_def
        split: option.splits sum.splits if_splits)

theorem report_asset_gate_witness:
  "\<not> truetype_loads font_absent
   \<and> generate_diet_report_image font_absent (cat_info stale_session)
         (the (der_info stale_session)) (intake_analysis stale_session)
         (feeding_plan stale_session) = Inl AssetMissing
   \<and> truetype_loads font_present
   \<and> generate_diet_report_image font_present (cat_info stale_session)
         (the (der_info stale_session)) (intake_analysis stale_session)
         (feeding_plan stale_session) = Inr png_signature
   \<and> \<not> font_exists font_absent \<and> der_info stale_session \<noteq> None
   \<and> tab4 font_absent stale_session = [Message SevError AssetMissing]
   \<and> DownloadButton png_signature \<notin> set (tab4 font_absent stale_session)
   \<and> DownloadButton png_signature \<in> set (tab4 font_present stale_session)
   \<and> font_exists font_present"
proof -
  have a: "\<not> truetype_loads font_absent" "\<not> font_exists font_absent"
    by (simp_all add: font_absent_def)
  have p: "truetype_loads font_present" "font_exists font_present"
    "render_png font_present x = png_signature" for x
    by (simp_all add: font_present_def)
  have s: "der_info stale_session \<noteq> None" by (simp add: stale_session_def)
  have b: "DownloadButton png_signature \<in> set (tab4 font_present stale_session)"
    by (simp add: tab4_def generate_diet_report_image_def p stale_session_def
          png_signature_def)
  from report_asset_gate [of font_absent "cat_info stale_session"
         "the (der_info stale_session)" "intake_analysis stale_session"
         "feeding_plan stale_session" stale_session png_signature]
       report_asset_gate [of font_present "cat_info stale_session"
         "the (der_info stale_session)" "intake_analysis stale_session"
         "feeding_plan stale_session" stale_session png_signature]
  show ?thesis using a p s b by simp
qed

text \<open>
  C10. With a requirement \<open>d\<close> stored and both caloric densities positive, the planned
  grams fed back as an intake give exactly \<open>d\<close>: (dry grams / 1000) * dry density +
  (wet grams / 100) * wet density = d, the intake analysis of the plan stores a
  difference of 0, and its verdict is "on target".
\<close>

theorem plan_round_trip:
  assumes "der st = Some (Some d)" and "generate_plan w"
    and "0 < dry_food_kcal_per_1000g w" and "0 < wet_food_kcal_per_100g w"
  shows "\<exists>p ia. feeding_plan (snd (tab3 w st)) = Some p
           \<and> (fp_required_dry_grams p / 1000) * dry_food_kcal_per_1000g w
               + (fp_required_wet_grams p / 100) * wet_food_kcal_per_100g w = d
           \<and> intake_analysis (snd (snd (tab2 (plan_as_intake w p) (snd (tab3 w st))))) = Some ia
           \<and> ia_total_intake ia = d
           \<and> ia_calorie_difference ia = 0
           \<and> verdicts (fst (tab2 (plan_as_intake w p) (snd (tab3 w st)))) = [OnTarget]"
proof -
  have nz: "\<not> (dry_food_kcal_per_1000g w = 0 \<and> wet_food_kcal_per_100g w = 0)"
    using assms(3) by simp
  from tab3_stores [OF assms(1,2) nz] obtain p where
    t3: "tab3 w st = ([ShownPlan (fp_required_dry_grams p) (fp_required_wet_grams p)],
                      st\<lparr>feeding_plan := Some p\<rparr>)"
    and rd: "fp_required_dry_grams p =
               (d * (real_of_int (100 - wet_food_percentage w) / 100)
                  / dry_food_kcal_per_1000g w) * 1000"
    and rw: "fp_required_wet_grams p =
               (d * (real_of_int (wet_food_percentage w) / 100)
                  / wet_food_kcal_per_100g w) * 100"
    using assms(3,4) by auto
  have total: "(fp_required_dry_grams p / 1000) * dry_food_kcal_per_1000g w
               + (fp_required_wet_grams p / 100) * wet_food_kcal_per_100g w = d"
    unfolding rd rw by (rule split_recombines [OF assms(3,4)])
  have st3: "snd (tab3 w st) = st\<lparr>feeding_plan := Some p\<rparr>"
    using t3 by simp
  have fp: "feeding_plan (snd (tab3 w st)) = Some p"
    and d3: "der (snd (tab3 w st)) = Some (Some d)"
    using assms(1) by (simp_all add: st3)
  have ai: "analyze_intake (plan_as_intake w p)"
    and fields: "dry_food_grams (plan_as_intake w p) = fp_required_dry_grams p"
      "wet_food_grams (plan_as_intake w p) = fp_required_wet_grams p"
      "dry_food_kcal_per_1000g (plan_as_intake w p) = dry_food_kcal_per_1000g w"
      "wet_food_kcal_per_100g (plan_as_intake w p) = wet_food_kcal_per_100g w"
    by (simp_all add: plan_as_intake_def)
  from tab2_stores [OF ai d3] obtain ia where
    ia: "intake_analysis (snd (snd (tab2 (plan_as_intake w p) (snd (tab3 w st))))) = Some ia"
    and tot: "ia_total_intake ia = (fp_required_dry_grams p / 1000) * dry_food_kcal_per_1000g w
               + (fp_required_wet_grams p / 100) * wet_food_kcal_per_100g w"
    and diff: "ia_calorie_difference ia = ia_total_intake ia - d"
    and ver: "verdicts (fst (tab2 (plan_as_intake w p) (snd (tab3 w st))))
                = [classify (ia_calorie_difference ia)]"
    unfolding fields by auto
  have t: "ia_total_intake ia = d" using tot total by simp
  have z: "ia_calorie_difference ia = 0" using diff t by simp
  have v: "verdicts (fst (tab2 (plan_as_intake w p) (snd (tab3 w st)))) = [OnTarget]"
    using ver z by (simp add: classify_def)
  from fp total ia t z v show ?thesis by blast
qed

theorem plan_round_trip_witness:
  "der (session_with_der 300) = Some (Some 300) \<and> generate_plan plan_example
   \<and> 0 < dry_food_kcal_per_1000g plan_example \<and> 0 < wet_food_kcal_per_100g plan_example
   \<and> (\<exists>p ia. feeding_plan (snd (tab3 plan_example (session_with_der 300))) = Some p
           \<and> (fp_required_dry_grams p / 1000) * 4000
               + (fp_required_wet_grams p / 100) * 100 = 300
           \<and> intake_analysis (snd (snd (tab2 (plan_as_intake plan_example p)
                   (snd (tab3 plan_example (session_with_der 300)))))) = Some ia
           \<and> ia_total_intake ia = 300
           \<and> ia_calorie_difference ia = 0
           \<and> verdicts (fst (tab2 (plan_as_intake plan_example p)
                   (snd (tab3 plan_example (session_with_der 300))))) = [OnTarget])"
proof -
  have d: "der (session_with_der 300) = Some (Some 300)"
    by (simp add: session_with_der_def empty_session_def)
  have g: "generate_plan plan_example"
    and k: "dry_food_kcal_per_1000g plan_example = 4000"
           "wet_food_kcal_per_100g plan_example = 100"
    by (simp_all add: plan_example_def default_widgets_def)
  have pos: "0 < dry_food_kcal_per_1000g plan_example"
            "0 < wet_food_kcal_per_100g plan_example"
    by (simp_all add: k)
  from plan_round_trip [OF d g pos] show ?thesis
    using d g pos by (simp only: k)
qed

end
